theory Spec2Isabelle
  imports Complex_Main
begin

section \<open>Dense vectors and matrices\<close>

text \<open>
  The coordinate type \<open>ct\<close> of the geometry is a template parameter; it is read here as
  the field of real numbers, so every statement below is one of exact arithmetic.
  A \<open>FieldVector<ct, n>\<close> is a list of \<open>n\<close> coordinates, a \<open>FieldMatrix<ct, m, n>\<close> a list
  of \<open>m\<close> rows of \<open>n\<close> entries.  The static dimensions of the C++ types are passed along
  as natural numbers.
\<close>

type_synonym FieldVector = "real list"
type_synonym FieldMatrix = "real list list"

definition is_vec :: "nat \<Rightarrow> FieldVector \<Rightarrow> bool" where
  "is_vec n v \<longleftrightarrow> length v = n"

definition is_mat :: "nat \<Rightarrow> nat \<Rightarrow> FieldMatrix \<Rightarrow> bool" where
  "is_mat m n A \<longleftrightarrow> length A = m \<and> list_all (\<lambda>r. length r = n) A"

text \<open>\<open>a - b\<close> on vectors of the same static size.\<close>

definition vsub :: "FieldVector \<Rightarrow> FieldVector \<Rightarrow> FieldVector" where
  "vsub a b = map2 (-) a b"

text \<open>\<open>two_norm\<close>: the Euclidean norm.\<close>

definition two_norm :: "FieldVector \<Rightarrow> real" where
  "two_norm v = sqrt (sum_list (map (\<lambda>c. c * c) v))"

text \<open>
  \<open>A.umtv(x, y)\<close>: \<open>y += A\<^sup>T x\<close>, as the two nested loops of the dense matrix:
  \<^verbatim>\<open>for i < rows: for j < cols: y[j] += A[i][j] * x[i]\<close>.
\<close>

definition umtv :: "nat \<Rightarrow> nat \<Rightarrow> FieldMatrix \<Rightarrow> FieldVector \<Rightarrow> FieldVector \<Rightarrow> FieldVector" where
  "umtv rows cols A x y =
     fold (\<lambda>i y. fold (\<lambda>j y. y[j := y ! j + A ! i ! j * x ! i]) [0..<cols] y) [0..<rows] y"

text \<open>
  \<open>A.mtv(x, y)\<close>: \<open>y = A\<^sup>T x\<close>:
  \<^verbatim>\<open>for i < cols: y[i] = 0; for j < rows: y[i] += A[j][i] * x[j]\<close>.
\<close>

definition mtv :: "nat \<Rightarrow> nat \<Rightarrow> FieldMatrix \<Rightarrow> FieldVector \<Rightarrow> FieldVector" where
  "mtv rows cols A x =
     map (\<lambda>i. fold (\<lambda>j s. s + A ! j ! i * x ! j) [0..<rows] 0) [0..<cols]"

text \<open>
  \<open>A.mv(x, y)\<close>: \<open>y = A x\<close>:
  \<^verbatim>\<open>for i < rows: y[i] = 0; for j < cols: y[i] += A[i][j] * x[j]\<close>.
\<close>

definition mv :: "nat \<Rightarrow> nat \<Rightarrow> FieldMatrix \<Rightarrow> FieldVector \<Rightarrow> FieldVector" where
  "mv rows cols A x =
     map (\<lambda>i. fold (\<lambda>j s. s + A ! i ! j * x ! j) [0..<cols] 0) [0..<rows]"

text \<open>
  \<open>FMatrixHelp::multMatrix(A, B, ret)\<close> for an \<open>m \<times> n\<close> matrix \<open>A\<close> and an \<open>n \<times> p\<close>
  matrix \<open>B\<close>: \<open>ret[i][j] = \<Sum>k. A[i][k] * B[k][j]\<close>.
\<close>

definition multMatrix :: "nat \<Rightarrow> nat \<Rightarrow> nat \<Rightarrow> FieldMatrix \<Rightarrow> FieldMatrix \<Rightarrow> FieldMatrix" where
  "multMatrix m n p A B =
     map (\<lambda>i. map (\<lambda>j. fold (\<lambda>k s. s + A ! i ! k * B ! k ! j) [0..<n] 0) [0..<p]) [0..<m]"

definition identity :: "nat \<Rightarrow> FieldMatrix" where
  "identity m = map (\<lambda>j. map (\<lambda>k. if j = k then 1 else 0) [0..<m]) [0..<m]"

section \<open>Reference elements\<close>

text \<open>
  Modelled from the spec: \<open>GeometryType\<close> (dune/geometry/type.hh) is an opaque
  classification made of a topology and a dimension.
\<close>

datatype GeometryType = GeometryType (topologyId: nat) (dim: nat)

text \<open>
  Modelled from the spec: the class \<open>ReferenceElement\<close> (dune/geometry/referenceelements.hh)
  is consumed through four members only: \<open>type()\<close>, \<open>size(codim)\<close>, \<open>position(i, codim)\<close> and
  \<open>volume()\<close>.  A reference element is the record of these four.
\<close>

record ReferenceElement =
  re_type :: GeometryType
  re_size :: "int \<Rightarrow> int"
  re_position :: "int \<Rightarrow> int \<Rightarrow> FieldVector"
  re_volume :: real

section \<open>AffineGeometry\<close>

text \<open>
  \<open>Traits::MatrixHelper\<close> is a template parameter of \<open>AffineGeometry\<close>; the one member used
  is \<open>rightInvA<m, n>(A, ret)\<close>, which returns a scalar and writes the matrix \<open>ret\<close>.
\<close>

type_synonym MatrixHelper = "nat \<Rightarrow> nat \<Rightarrow> FieldMatrix \<Rightarrow> real \<times> FieldMatrix"

text \<open>
  \<open>struct Storage : public UserData\<close>.  The base-class part is the field \<open>s_userData\<close>, the
  pointer to the reference element is the reference element itself.
\<close>

record 'u Storage =
  s_userData :: 'u
  s_refElement :: ReferenceElement
  s_origin :: FieldVector
  s_jacobianTransposed :: FieldMatrix
  s_jacobianInverseTransposed :: FieldMatrix
  s_integrationElement :: real

text \<open>The first constructor of \<open>Storage\<close>: origin and Jacobian are stored as given.\<close>

definition Storage_jt ::
  "MatrixHelper \<Rightarrow> nat \<Rightarrow> nat \<Rightarrow> ReferenceElement \<Rightarrow> FieldVector \<Rightarrow> FieldMatrix \<Rightarrow> 'u \<Rightarrow> 'u Storage"
where
  "Storage_jt rightInvA mydim cdim refEl org jt ud =
     (let (ie, jit) = rightInvA mydim cdim jt
      in \<lparr> s_userData = ud, s_refElement = refEl, s_origin = org,
           s_jacobianTransposed = jt, s_jacobianInverseTransposed = jit,
           s_integrationElement = ie \<rparr>)"

text \<open>
  The loop of the second constructor,
  \<^verbatim>\<open>for (i = 0; i < mydimension; ++i) jacobianTransposed[i] = coordVector[i+1] - origin;\<close>
  run on a matrix \<open>jt\<close> of \<open>mydimension\<close> rows.
\<close>

definition fill_rows :: "nat \<Rightarrow> FieldVector list \<Rightarrow> FieldVector \<Rightarrow> FieldMatrix \<Rightarrow> FieldMatrix" where
  "fill_rows mydim coordVector org jt =
     fold (\<lambda>i jt. jt[i := vsub (coordVector ! (i + 1)) org]) [0..<mydim] jt"

text \<open>
  The second constructor of \<open>Storage\<close>.  It reads \<open>coordVector[0]\<close> to
  \<open>coordVector[mydimension]\<close> and nothing tells it how long \<open>coordVector\<close> is: on a shorter
  sequence the reads leave the sequence and the source defines no result, which is the
  value \<open>None\<close> here.  The member \<open>jacobianTransposed\<close> is default-constructed before the loop
  overwrites each of its rows; it starts as the zero matrix here.
\<close>

definition Storage_coordVector ::
  "MatrixHelper \<Rightarrow> nat \<Rightarrow> nat \<Rightarrow> ReferenceElement \<Rightarrow> FieldVector list \<Rightarrow> 'u \<Rightarrow> 'u Storage option"
where
  "Storage_coordVector rightInvA mydim cdim refEl coordVector ud =
     (if length coordVector < mydim + 1 then None
      else
        let org = coordVector ! 0;
            jt = fill_rows mydim coordVector org (replicate mydim (replicate cdim 0));
            (ie, jit) = rightInvA mydim cdim jt
        in Some \<lparr> s_userData = ud, s_refElement = refEl, s_origin = org,
                  s_jacobianTransposed = jt, s_jacobianInverseTransposed = jit,
                  s_integrationElement = ie \<rparr>)"

text \<open>
  An \<open>AffineGeometry<ct, mydim, cdim, Traits>\<close>: the two static dimensions and the one data
  member \<open>storage_\<close>.
\<close>

record 'u AffineGeometry =
  mydimension :: nat
  coorddimension :: nat
  storage :: "'u Storage"

text \<open>
  The four public constructors.  The two that take a \<open>GeometryType\<close> look the reference
  element up with \<open>ReferenceElements::general\<close>, the catalogue \<open>general\<close> here.
\<close>

definition AffineGeometry_refElement_jt ::
  "MatrixHelper \<Rightarrow> nat \<Rightarrow> nat \<Rightarrow> ReferenceElement \<Rightarrow> FieldVector \<Rightarrow> FieldMatrix \<Rightarrow> 'u
     \<Rightarrow> 'u AffineGeometry"
where
  "AffineGeometry_refElement_jt rightInvA mydim cdim refEl org jt ud =
     \<lparr> mydimension = mydim, coorddimension = cdim,
       storage = Storage_jt rightInvA mydim cdim refEl org jt ud \<rparr>"

definition AffineGeometry_gt_jt ::
  "MatrixHelper \<Rightarrow> (GeometryType \<Rightarrow> ReferenceElement) \<Rightarrow> nat \<Rightarrow> nat \<Rightarrow> GeometryType
     \<Rightarrow> FieldVector \<Rightarrow> FieldMatrix \<Rightarrow> 'u \<Rightarrow> 'u AffineGeometry"
where
  "AffineGeometry_gt_jt rightInvA general mydim cdim gt org jt ud =
     \<lparr> mydimension = mydim, coorddimension = cdim,
       storage = Storage_jt rightInvA mydim cdim (general gt) org jt ud \<rparr>"

definition AffineGeometry_refElement_coordVector ::
  "MatrixHelper \<Rightarrow> nat \<Rightarrow> nat \<Rightarrow> ReferenceElement \<Rightarrow> FieldVector list \<Rightarrow> 'u
     \<Rightarrow> 'u AffineGeometry option"
where
  "AffineGeometry_refElement_coordVector rightInvA mydim cdim refEl coordVector ud =
     map_option (\<lambda>s. \<lparr> mydimension = mydim, coorddimension = cdim, storage = s \<rparr>)
       (Storage_coordVector rightInvA mydim cdim refEl coordVector ud)"

definition AffineGeometry_gt_coordVector ::
  "MatrixHelper \<Rightarrow> (GeometryType \<Rightarrow> ReferenceElement) \<Rightarrow> nat \<Rightarrow> nat \<Rightarrow> GeometryType
     \<Rightarrow> FieldVector list \<Rightarrow> 'u \<Rightarrow> 'u AffineGeometry option"
where
  "AffineGeometry_gt_coordVector rightInvA general mydim cdim gt coordVector ud =
     map_option (\<lambda>s. \<lparr> mydimension = mydim, coorddimension = cdim, storage = s \<rparr>)
       (Storage_coordVector rightInvA mydim cdim (general gt) coordVector ud)"

definition refElement :: "'u AffineGeometry \<Rightarrow> ReferenceElement" where
  "refElement g = s_refElement (storage g)"

definition affine :: "'u AffineGeometry \<Rightarrow> bool" where
  "affine g = True"

definition type :: "'u AffineGeometry \<Rightarrow> GeometryType" where
  "type g = re_type (refElement g)"

definition corners :: "'u AffineGeometry \<Rightarrow> int" where
  "corners g = re_size (refElement g) (int (mydimension g))"

definition global :: "'u AffineGeometry \<Rightarrow> FieldVector \<Rightarrow> FieldVector" where
  "global g x =
     umtv (mydimension g) (coorddimension g) (s_jacobianTransposed (storage g)) x
       (s_origin (storage g))"

definition corner :: "'u AffineGeometry \<Rightarrow> int \<Rightarrow> FieldVector" where
  "corner g i = global g (re_position (refElement g) i (int (mydimension g)))"

definition center :: "'u AffineGeometry \<Rightarrow> FieldVector" where
  "center g = global g (re_position (refElement g) 0 0)"

definition local :: "'u AffineGeometry \<Rightarrow> FieldVector \<Rightarrow> FieldVector" where
  "local g y =
     mtv (coorddimension g) (mydimension g) (s_jacobianInverseTransposed (storage g))
       (vsub y (s_origin (storage g)))"

definition integrationElement :: "'u AffineGeometry \<Rightarrow> FieldVector \<Rightarrow> real" where
  "integrationElement g x = s_integrationElement (storage g)"

definition volume :: "'u AffineGeometry \<Rightarrow> real" where
  "volume g = s_integrationElement (storage g) * re_volume (refElement g)"

definition jacobianTransposed :: "'u AffineGeometry \<Rightarrow> FieldVector \<Rightarrow> FieldMatrix" where
  "jacobianTransposed g x = s_jacobianTransposed (storage g)"

definition jacobianInverseTransposed :: "'u AffineGeometry \<Rightarrow> FieldVector \<Rightarrow> FieldMatrix" where
  "jacobianInverseTransposed g x = s_jacobianInverseTransposed (storage g)"

text \<open>
  \<open>userData()\<close>, the reading accessor, and what the caller can do with the reference the
  writing accessor hands out: replace the \<open>UserData\<close> part of \<open>storage_\<close>.
\<close>

definition userData :: "'u AffineGeometry \<Rightarrow> 'u" where
  "userData g = s_userData (storage g)"

definition userData_assign :: "'u \<Rightarrow> 'u AffineGeometry \<Rightarrow> 'u AffineGeometry" where
  "userData_assign ud g = g\<lparr> storage := (storage g)\<lparr> s_userData := ud \<rparr> \<rparr>"

section \<open>The pseudo-inverse kernel\<close>

text \<open>The transpose of an \<open>m \<times> n\<close> matrix.\<close>

definition transposed :: "nat \<Rightarrow> nat \<Rightarrow> FieldMatrix \<Rightarrow> FieldMatrix" where
  "transposed m n A = map (\<lambda>j. map (\<lambda>i. A ! i ! j) [0..<m]) [0..<n]"

text \<open>
  Modelled from the spec: \<open>MatrixHelper::rightInvA\<close>
  (dune/geometry/genericgeometry/matrixhelper.hh) is missing from the sources.  The spec
  calls it \<open>MatrixPseudoInverse\<close>: given a \<open>mydim \<times> cdim\<close> matrix it returns the
  Moore-Penrose pseudo-inverse (\<open>cdim \<times> mydim\<close>) and the pseudo-determinant.
  The Moore-Penrose pseudo-inverse \<open>X\<close> of \<open>A\<close> is the matrix with
  \<open>A X A = A\<close>, \<open>X A X = X\<close>, and \<open>A X\<close> and \<open>X A\<close> symmetric.
\<close>

definition pseudo_inverse :: "nat \<Rightarrow> nat \<Rightarrow> FieldMatrix \<Rightarrow> FieldMatrix \<Rightarrow> bool" where
  "pseudo_inverse m n A X \<longleftrightarrow>
     is_mat m n A \<and> is_mat n m X \<and>
     multMatrix m m n (multMatrix m n m A X) A = A \<and>
     multMatrix n n m (multMatrix n m n X A) X = X \<and>
     transposed m m (multMatrix m n m A X) = multMatrix m n m A X \<and>
     transposed n n (multMatrix n m n X A) = multMatrix n m n X A"

text \<open>
  The rows of a \<open>m \<times> n\<close> matrix are linearly independent: the only combination
  \<open>A\<^sup>T y\<close> of the rows that vanishes is the one with \<open>y = 0\<close>.
\<close>

definition full_row_rank :: "nat \<Rightarrow> nat \<Rightarrow> FieldMatrix \<Rightarrow> bool" where
  "full_row_rank m n A \<longleftrightarrow>
     (\<forall>y. length y = m \<longrightarrow> mtv m n A y = replicate n 0 \<longrightarrow> y = replicate m 0)"

text \<open>
  The determinant of an \<open>m \<times> m\<close> matrix (\<open>FieldMatrix::determinant\<close>), by expansion along
  the first row.
\<close>

definition delete_at :: "nat \<Rightarrow> 'a list \<Rightarrow> 'a list" where
  "delete_at j xs = take j xs @ drop (Suc j) xs"

fun determinant_n :: "nat \<Rightarrow> FieldMatrix \<Rightarrow> real" where
  "determinant_n 0 A = 1"
| "determinant_n (Suc k) A =
     fold (\<lambda>j s. s + (- 1) ^ j * A ! 0 ! j * determinant_n k (map (delete_at j) (tl A)))
       [0..<Suc k] 0"

definition determinant :: "FieldMatrix \<Rightarrow> real" where
  "determinant A = determinant_n (length A) A"

text \<open>
  Modelled from the spec: \<open>MatrixHelper::rightInvA\<close> is missing from the sources; this is
  the kernel of the concrete scenarios.  The matrix it returns is the Moore-Penrose
  pseudo-inverse, of a rank-deficient matrix as well, computed column by column with
  Greville's recursion: with \<open>P\<close> the pseudo-inverse of the columns \<open>cs\<close> seen so far and
  \<open>a\<close> the next column, \<open>d = P a\<close>, \<open>c = a - cs d\<close>, the new last row is
  \<open>b = c / (c \<cdot> c)\<close> when \<open>c \<noteq> 0\<close> and \<open>b = d\<^sup>T P / (1 + d \<cdot> d)\<close> otherwise, and the rows
  above become \<open>P - d b\<close>.  The scalar is \<open>sqrt (det (A A\<^sup>T))\<close>, which is \<open>\<bar>det A\<bar>\<close> for
  \<open>mydim = cdim\<close> and zero for a rank-deficient matrix.
\<close>

definition dot :: "FieldVector \<Rightarrow> FieldVector \<Rightarrow> real" where
  "dot a b = sum_list (map2 (*) a b)"

definition combination :: "nat \<Rightarrow> real list \<Rightarrow> FieldVector list \<Rightarrow> FieldVector" where
  "combination m d vs =
     fold (\<lambda>(di, v) acc. map2 (\<lambda>a vi. a + di * vi) acc v) (zip d vs) (replicate m 0)"

fun greville :: "nat \<Rightarrow> FieldVector list \<Rightarrow> FieldVector list \<Rightarrow> FieldMatrix \<Rightarrow> FieldMatrix" where
  "greville m [] cs P = P"
| "greville m (a # as) cs P =
     (let d = map (\<lambda>row. dot row a) P;
          c = vsub a (combination m d cs);
          b = (if list_ex (\<lambda>x. x \<noteq> 0) c then map (\<lambda>x. x / dot c c) c
               else map (\<lambda>x. x / (1 + dot d d)) (combination m d P))
      in greville m as (cs @ [a])
           (map2 (\<lambda>row di. map2 (\<lambda>r bi. r - di * bi) row b) P d @ [b]))"

definition moore_penrose :: "nat \<Rightarrow> nat \<Rightarrow> FieldMatrix \<Rightarrow> FieldMatrix" where
  "moore_penrose m n A = greville m (transposed m n A) [] []"

definition rightInvA_spec :: MatrixHelper where
  "rightInvA_spec m n A =
     (sqrt (determinant_n m (multMatrix m n m A (transposed m n A))), moore_penrose m n A)"

section \<open>checkGeometry\<close>

text \<open>
  \<open>checkGeometry\<close> is a template over the geometry type.  What it uses of a geometry is
  two static dimensions and the methods below; a \<open>TestGeometry\<close> is the record of them.
  The two Jacobians are matrices, of which only \<open>mv\<close> is called.
\<close>

record TestGeometry =
  tg_mydimension :: nat
  tg_coorddimension :: nat
  tg_type :: GeometryType
  tg_affine :: bool
  tg_corners :: int
  tg_corner :: "int \<Rightarrow> FieldVector"
  tg_center :: FieldVector
  tg_global :: "FieldVector \<Rightarrow> FieldVector"
  tg_local :: "FieldVector \<Rightarrow> FieldVector"
  tg_integrationElement :: "FieldVector \<Rightarrow> real"
  tg_volume :: real
  tg_jacobianTransposed :: "FieldVector \<Rightarrow> FieldMatrix"
  tg_jacobianInverseTransposed :: "FieldVector \<Rightarrow> FieldMatrix"

text \<open>An \<open>AffineGeometry\<close> seen through that interface.\<close>

definition as_TestGeometry :: "'u AffineGeometry \<Rightarrow> TestGeometry" where
  "as_TestGeometry g =
     \<lparr> tg_mydimension = mydimension g, tg_coorddimension = coorddimension g,
       tg_type = type g, tg_affine = affine g, tg_corners = corners g,
       tg_corner = corner g, tg_center = center g, tg_global = global g,
       tg_local = local g, tg_integrationElement = integrationElement g,
       tg_volume = volume g, tg_jacobianTransposed = jacobianTransposed g,
       tg_jacobianInverseTransposed = jacobianInverseTransposed g \<rparr>"

text \<open>
  What the checker takes from its surroundings: the catalogue
  \<open>ReferenceElements::general\<close>, the positions of the points of the quadrature rule that
  \<open>QuadratureFactory::create(type, order)\<close> returns, and
  \<open>std::numeric_limits<ctype>::epsilon()\<close>.
\<close>

record CheckEnv =
  ce_general :: "GeometryType \<Rightarrow> ReferenceElement"
  ce_create :: "GeometryType \<Rightarrow> nat \<Rightarrow> FieldVector list"
  ce_epsilon :: real

text \<open>
  The lines written to \<open>std::cerr\<close>, one constructor for each message:
  \<^item> \<open>CornerGlobal\<close>: "Error: Methods corner and global are inconsistent."
  \<^item> \<open>NumberOfCorners c s\<close>: "Error: Incorrect number of corners (c, should be s)."
  \<^item> \<open>GlobalLocal\<close>: "Error: global and local are not inverse to each other."
  \<^item> \<open>JacobianInverse id\<close>: "Error: jacobianTransposed and jacobianInverseTransposed are
    not inverse to each other.", followed on \<open>std::cout\<close> by the matrix \<open>id\<close>
  \<^item> \<open>NegativeIntegrationElement\<close>: "Error: Negative integrationElement found."
  \<^item> \<open>IntegrationElementJacobian\<close>: "Error: integrationElement is not consistent with
    jacobianTransposed."
  \<^item> \<open>VolumeJacobian\<close>: "Error: volume is not consistent with jacobianTransposed."
\<close>

datatype diagnostic =
    CornerGlobal
  | NumberOfCorners int int
  | GlobalLocal
  | JacobianInverse FieldMatrix
  | NegativeIntegrationElement
  | IntegrationElementJacobian
  | VolumeJacobian

datatype Exception = Exception string

text \<open>
  The state of a run: the variable \<open>pass\<close> and the lines written so far.  A violation
  writes its line and sets \<open>pass = false\<close>.
\<close>

type_synonym report = "bool \<times> diagnostic list"

definition violation :: "diagnostic \<Rightarrow> report \<Rightarrow> report" where
  "violation d r = (False, snd r @ [d])"

text \<open>The number and the placement of the corners.\<close>

definition check_corners :: "TestGeometry \<Rightarrow> ReferenceElement \<Rightarrow> report \<Rightarrow> report" where
  "check_corners geometry refElem r =
     (let mydim = int (tg_mydimension geometry) in
      if re_size refElem mydim = tg_corners geometry
      then fold (\<lambda>i r.
                  if two_norm (vsub (tg_corner geometry i)
                                    (tg_global geometry (re_position refElem i mydim)))
                     > 1 / 10 ^ 8
                  then violation CornerGlobal r else r)
             [0..tg_corners geometry - 1] r
      else violation (NumberOfCorners (tg_corners geometry) (re_size refElem mydim)) r)"

text \<open>
  A matrix that offers \<open>mv\<close> only, turned into a \<open>FieldMatrix\<close> of \<open>rows \<times> cols\<close> entries:
  column \<open>j\<close> is the image of the \<open>j\<close>-th unit vector.
\<close>

definition idColumn :: "nat \<Rightarrow> nat \<Rightarrow> FieldVector" where
  "idColumn n j = (replicate n 0)[j := 1]"

definition asFieldMatrix :: "nat \<Rightarrow> nat \<Rightarrow> FieldMatrix \<Rightarrow> FieldMatrix" where
  "asFieldMatrix rows cols M =
     map (\<lambda>k. map (\<lambda>j. mv rows cols M (idColumn cols j) ! k) [0..<cols]) [0..<rows]"

text \<open>The body of the loop over the quadrature points, at the point \<open>x\<close>.\<close>

definition check_point ::
  "CheckEnv \<Rightarrow> TestGeometry \<Rightarrow> ReferenceElement \<Rightarrow> FieldVector \<Rightarrow> report \<Rightarrow> report"
where
  "check_point env geometry refElem x r0 =
     (let mydim = tg_mydimension geometry;
          coorddim = tg_coorddimension geometry;
          r1 = (if two_norm (vsub x (tg_local geometry (tg_global geometry x)))
                   > sqrt (ce_epsilon env)
                then violation GlobalLocal r0 else r0);
          jt = tg_jacobianTransposed geometry x;
          jit = tg_jacobianInverseTransposed geometry x;
          jtAsFieldMatrix = asFieldMatrix mydim coorddim jt;
          jitAsFieldMatrix = asFieldMatrix coorddim mydim jit;
          id = multMatrix mydim coorddim mydim jtAsFieldMatrix jitAsFieldMatrix;
          isId = list_all (\<lambda>j. list_all (\<lambda>k.
                     \<bar>id ! j ! k - (if j = k then 1 else 0)\<bar> < 1 / 10 ^ 8) [0..<mydim])
                   [0..<mydim];
          r2 = (if \<not> isId then violation (JacobianInverse id) r1 else r1);
          r3 = (if tg_integrationElement geometry x < 0
                then violation NegativeIntegrationElement r2 else r2);
          jtj = map (\<lambda>i. map (\<lambda>j.
                     fold (\<lambda>k s. s + jtAsFieldMatrix ! i ! k * jtAsFieldMatrix ! j ! k)
                       [0..<coorddim] 0) [0..<mydim]) [0..<mydim];
          r4 = (if \<bar>sqrt (determinant jtj) - tg_integrationElement geometry x\<bar> > 1 / 10 ^ 8
                then violation IntegrationElementJacobian r3 else r3);
          r5 = (if tg_affine geometry
                then (if \<bar>tg_volume geometry
                           - re_volume refElem * tg_integrationElement geometry x\<bar>
                         > 1 / 10 ^ 8
                      then violation VolumeJacobian r4 else r4)
                else r4)
      in r5)"

text \<open>
  \<open>checkGeometry\<close>.  The comparison of \<open>center()\<close> ends in \<open>DUNE_THROW\<close>, the left summand of
  the result; every other comparison goes through \<open>violation\<close>.
\<close>

definition checkGeometry :: "CheckEnv \<Rightarrow> TestGeometry \<Rightarrow> Exception + report" where
  "checkGeometry env geometry =
     (let gt = tg_type geometry;
          refElem = ce_general env gt;
          c = tg_global geometry (re_position refElem 0 0)
      in if \<bar>two_norm (vsub (tg_center geometry) c)\<bar> > 1 / 10 ^ 8
         then Inl (Exception
                ''center() is not consistent with global(refElem.position(0,0)).'')
         else
           let r = check_corners geometry refElem (True, []);
               quadrature = ce_create env (tg_type geometry) 2
           in Inr (fold (check_point env geometry refElem) quadrature r))"

section \<open>Concrete scenarios\<close>

text \<open>
  Modelled from the spec: two entries of the reference-element catalogue, the unit
  interval and the unit triangle with the corners \<open>(0,0)\<close>, \<open>(1,0)\<close>, \<open>(0,1)\<close> and the
  volume \<open>1/2\<close>.  The spec does not say what \<open>size\<close> and \<open>position\<close> answer to a
  codimension or an index that names no subentity; there the two elements are left
  unspecified.
\<close>

definition simplex1 :: ReferenceElement where
  "simplex1 =
     \<lparr> re_type = GeometryType 0 1,
       re_size = (\<lambda>c. if c = 0 then 1 else if c = 1 then 2 else undefined),
       re_position = (\<lambda>i c.
          if c = 1 \<and> i = 0 then [0]
          else if c = 1 \<and> i = 1 then [1]
          else if c = 0 \<and> i = 0 then [1 / 2]
          else undefined),
       re_volume = 1 \<rparr>"

definition simplex2 :: ReferenceElement where
  "simplex2 =
     \<lparr> re_type = GeometryType 0 2,
       re_size = (\<lambda>c. if c = 0 then 1 else if c = 1 \<or> c = 2 then 3 else undefined),
       re_position = (\<lambda>i c.
          if c = 2 \<and> i = 0 then [0, 0]
          else if c = 2 \<and> i = 1 then [1, 0]
          else if c = 2 \<and> i = 2 then [0, 1]
          else if c = 1 \<and> i = 0 then [1 / 2, 0]
          else if c = 1 \<and> i = 1 then [0, 1 / 2]
          else if c = 1 \<and> i = 2 then [1 / 2, 1 / 2]
          else if c = 0 \<and> i = 0 then [1 / 3, 1 / 3]
          else undefined),
       re_volume = 1 / 2 \<rparr>"

definition catalogue :: "GeometryType \<Rightarrow> ReferenceElement" where
  "catalogue gt = (if dim gt = 1 then simplex1 else simplex2)"

text \<open>
  Scenario D of the spec: the reference triangle embedded in space with the corners
  \<open>(0,0,0)\<close>, \<open>(1,0,0)\<close>, \<open>(0,1,0)\<close>; here built from origin and Jacobian.
\<close>

definition embedded_triangle :: "unit AffineGeometry" where
  "embedded_triangle =
     AffineGeometry_refElement_jt rightInvA_spec 2 3 simplex2 [0, 0, 0]
       [[1, 0, 0], [0, 1, 0]] ()"

text \<open>Scenario B of the spec: the triangle with the corners \<open>(0,0)\<close>, \<open>(2,0)\<close>, \<open>(0,2)\<close>.\<close>

definition scaled_triangle :: "unit AffineGeometry" where
  "scaled_triangle =
     AffineGeometry_refElement_jt rightInvA_spec 2 2 simplex2 [0, 0] [[2, 0], [0, 2]] ()"

text \<open>
  Scenario C of the spec: the triangle with the collinear corners \<open>(0,0)\<close>, \<open>(1,0)\<close>,
  \<open>(2,0)\<close>, whose Jacobian has the rows \<open>(1,0)\<close> and \<open>(2,0)\<close>.
\<close>

definition collinear_triangle :: "unit AffineGeometry" where
  "collinear_triangle =
     AffineGeometry_refElement_jt rightInvA_spec 2 2 simplex2 [0, 0] [[1, 0], [2, 0]] ()"

text \<open>The four corners of the unit square, handed to the constructor of a triangle.\<close>

definition square_corners :: "FieldVector list" where
  "square_corners = [[0, 0], [1, 0], [0, 1], [1, 1]]"

text \<open>
  What surrounds the checker on the unit interval: interval and triangle in the
  catalogue, two sample points, the epsilon of IEEE double precision.
\<close>

definition interval_env :: CheckEnv where
  "interval_env =
     \<lparr> ce_general = catalogue, ce_create = (\<lambda>gt order. [[1 / 4], [3 / 4]]),
       ce_epsilon = 1 / 2 ^ 52 \<rparr>"

text \<open>The identity map of the unit interval, with every method as it should be.\<close>

definition unit_interval :: TestGeometry where
  "unit_interval =
     \<lparr> tg_mydimension = 1, tg_coorddimension = 1, tg_type = GeometryType 0 1,
       tg_affine = True, tg_corners = 2,
       tg_corner = (\<lambda>i. if i = 1 then [1] else [0]), tg_center = [1 / 2],
       tg_global = (\<lambda>x. x), tg_local = (\<lambda>y. y), tg_integrationElement = (\<lambda>x. 1),
       tg_volume = 1, tg_jacobianTransposed = (\<lambda>x. [[1]]),
       tg_jacobianInverseTransposed = (\<lambda>x. [[1]]) \<rparr>"

section \<open>The loops of the dense matrix in closed form\<close>

lemma fold_add_sum:
  "fold (\<lambda>j s. s + f j) [0..<n] (a::real) = a + (\<Sum>j<n. f j)"
  by (induction n) (simp_all add: add.assoc)

lemma inner_umtv:
  "k \<le> length y \<Longrightarrow>
   fold (\<lambda>j y. y[j := y ! j + c j]) [0..<k] (y::real list) =
   map (\<lambda>j. y ! j + c j) [0..<k] @ drop k y"
proof (induction k)
  case 0
  then show ?case by simp
next
  case (Suc k)
  then have k: "k < length y" by simp
  have "(map (\<lambda>j. y ! j + c j) [0..<k] @ drop k y)[k := (map (\<lambda>j. y ! j + c j) [0..<k] @ drop k y) ! k + c k]
      = map (\<lambda>j. y ! j + c j) [0..<k] @ (y ! k + c k) # drop (Suc k) y"
    using k by (simp add: list_update_append nth_append Cons_nth_drop_Suc [symmetric])
  with Suc k show ?case by simp
qed

lemma inner_umtv_full:
  "length y = cols \<Longrightarrow>
   fold (\<lambda>j y. y[j := y ! j + c j]) [0..<cols] (y::real list) = map (\<lambda>j. y ! j + c j) [0..<cols]"
  using inner_umtv [of cols y c] by simp

lemma umtv_eq:
  "length y = cols \<Longrightarrow>
   umtv rows cols A x y = map (\<lambda>j. y ! j + (\<Sum>i<rows. A ! i ! j * x ! i)) [0..<cols]"
proof (induction rows)
  case 0
  then have "map ((!) y) [0..<cols] = y" using map_nth [of y] by simp
  then show ?case by (simp add: umtv_def)
next
  case (Suc rows)
  then show ?case
    by (simp add: umtv_def inner_umtv_full add.assoc)
qed

lemma mtv_eq:
  "mtv rows cols A x = map (\<lambda>i. \<Sum>j<rows. A ! j ! i * x ! j) [0..<cols]"
  by (simp add: mtv_def fold_add_sum)

lemma mv_eq:
  "mv rows cols A x = map (\<lambda>i. \<Sum>j<cols. A ! i ! j * x ! j) [0..<rows]"
  by (simp add: mv_def fold_add_sum)

lemma multMatrix_eq:
  "multMatrix m n p A B = map (\<lambda>i. map (\<lambda>j. \<Sum>k<n. A ! i ! k * B ! k ! j) [0..<p]) [0..<m]"
  by (simp add: multMatrix_def fold_add_sum)

lemma multMatrix_nth:
  "i < m \<Longrightarrow> j < p \<Longrightarrow> multMatrix m n p A B ! i ! j = (\<Sum>k<n. A ! i ! k * B ! k ! j)"
  by (simp add: multMatrix_eq)

lemma identity_nth:
  "i < m \<Longrightarrow> k < m \<Longrightarrow> identity m ! i ! k = (if i = k then 1 else 0)"
  by (simp add: identity_def)

lemma mat_eqI:
  assumes "length P = m" and "length Q = m"
    and "\<And>i. i < m \<Longrightarrow> length (P ! i) = p"
    and "\<And>i. i < m \<Longrightarrow> length (Q ! i) = p"
    and "\<And>i k. i < m \<Longrightarrow> k < p \<Longrightarrow> P ! i ! k = Q ! i ! k"
  shows "P = (Q::FieldMatrix)"
proof (rule nth_equalityI)
  show "length P = length Q" using assms by simp
next
  fix i assume "i < length P"
  then have i: "i < m" using assms by simp
  show "P ! i = Q ! i"
  proof (rule nth_equalityI)
    show "length (P ! i) = length (Q ! i)" using assms i by simp
  next
    fix k assume "k < length (P ! i)"
    then have "k < p" using assms i by simp
    then show "P ! i ! k = Q ! i ! k" using assms i by simp
  qed
qed

section \<open>Pseudo-inverse and right inverse\<close>

text \<open>
  A Moore-Penrose pseudo-inverse of a matrix with linearly independent rows is a right
  inverse: from \<open>A X A = A\<close> every row of \<open>A X - I\<close> is a vanishing combination of the
  rows of \<open>A\<close>.
\<close>

lemma right_inverse:
  assumes pinv: "pseudo_inverse m n A X" and rank: "full_row_rank m n A"
  shows "multMatrix m n m A X = identity m"
proof -
  define P where "P = multMatrix m n m A X"
  have A: "multMatrix m m n P A = A"
    using pinv by (simp add: pseudo_inverse_def P_def)
  have entry: "(\<Sum>k<m. P ! i ! k * A ! k ! j) = A ! i ! j" if "i < m" "j < n" for i j
  proof -
    have "multMatrix m m n P A ! i ! j = (\<Sum>k<m. P ! i ! k * A ! k ! j)"
      using that by (rule multMatrix_nth)
    then show ?thesis by (simp add: A)
  qed
  have row: "P ! i ! k = (if i = k then 1 else 0)" if i: "i < m" and k: "k < m" for i k
  proof -
    define y where "y = map (\<lambda>k. P ! i ! k - (if i = k then 1 else 0)) [0..<m]"
    have len: "length y = m" by (simp add: y_def)
    have "(\<Sum>k<m. A ! k ! j * y ! k) = 0" if j: "j < n" for j
    proof -
      have "(\<Sum>k<m. A ! k ! j * y ! k)
          = (\<Sum>k<m. P ! i ! k * A ! k ! j - (if i = k then A ! k ! j else 0))"
        by (rule sum.cong) (auto simp: y_def algebra_simps)
      also have "\<dots> = (\<Sum>k<m. P ! i ! k * A ! k ! j) - (\<Sum>k<m. if i = k then A ! k ! j else 0)"
        by (simp add: sum_subtractf)
      also have "(\<Sum>k<m. if i = k then A ! k ! j else 0) = A ! i ! j"
        using i by simp
      finally show ?thesis using entry [OF i j] by simp
    qed
    then have "mtv m n A y = replicate n 0"
      by (intro nth_equalityI) (simp_all add: mtv_eq)
    with rank len have "y = replicate m 0"
      by (simp add: full_row_rank_def)
    then have "y ! k = 0" using k by simp
    then show ?thesis using k by (simp add: y_def)
  qed
  have "P = identity m"
  proof (rule mat_eqI [where m = m and p = m])
    fix i k assume "i < m" "k < m"
    then show "P ! i ! k = identity m ! i ! k"
      using row [of i k] by (simp only: identity_nth)
  qed (simp_all add: P_def multMatrix_eq identity_def)
  then show ?thesis by (simp add: P_def)
qed

lemma vsub_self: "vsub x x = replicate (length x) 0"
  by (intro nth_equalityI) (simp_all add: vsub_def)

lemma two_norm_zero: "two_norm (replicate n 0) = 0"
  by (induction n) (simp_all add: two_norm_def)

lemma roundtrip_of_right_inverse:
  assumes org: "length org = n" and x: "length x = m"
    and inv: "multMatrix m n m A X = identity m"
  shows "mtv n m X (vsub (umtv m n A x org) org) = x"
proof (rule nth_equalityI)
  show "length (mtv n m X (vsub (umtv m n A x org) org)) = length x"
    using x by (simp add: mtv_eq)
next
  fix k assume "k < length (mtv n m X (vsub (umtv m n A x org) org))"
  then have k: "k < m" by (simp add: mtv_eq)
  have diff: "vsub (umtv m n A x org) org ! j = (\<Sum>i<m. A ! i ! j * x ! i)" if "j < n" for j
    using that org by (simp add: vsub_def umtv_eq)
  have prod: "(\<Sum>j<n. A ! i ! j * X ! j ! k) = (if i = k then 1 else 0)" if "i < m" for i
    using multMatrix_nth [of i m k m n A X] identity_nth [of i m k] that k inv by simp
  have "mtv n m X (vsub (umtv m n A x org) org) ! k
      = (\<Sum>j<n. X ! j ! k * (\<Sum>i<m. A ! i ! j * x ! i))"
    using k by (simp add: mtv_eq diff)
  also have "\<dots> = (\<Sum>j<n. \<Sum>i<m. x ! i * (A ! i ! j * X ! j ! k))"
    by (simp add: sum_distrib_left algebra_simps)
  also have "\<dots> = (\<Sum>i<m. \<Sum>j<n. x ! i * (A ! i ! j * X ! j ! k))"
    by (rule sum.swap)
  also have "\<dots> = (\<Sum>i<m. x ! i * (\<Sum>j<n. A ! i ! j * X ! j ! k))"
    by (simp add: sum_distrib_left)
  also have "\<dots> = (\<Sum>i<m. x ! i * (if i = k then 1 else 0))"
    by (rule sum.cong) (simp_all add: prod)
  also have "\<dots> = (\<Sum>i<m. if k = i then x ! i else 0)"
    by (rule sum.cong) auto
  also have "\<dots> = x ! k"
    using k by simp
  finally show "mtv n m X (vsub (umtv m n A x org) org) ! k = x ! k" .
qed

section \<open>The concrete scenarios, evaluated\<close>

lemmas la_defs = multMatrix_def transposed_def delete_at_def mv_def mtv_def umtv_def
  identity_def determinant_def idColumn_def asFieldMatrix_def vsub_def two_norm_def

lemmas kernel_defs = rightInvA_spec_def moore_penrose_def dot_def combination_def

lemma embedded_triangle_eq:
  "embedded_triangle =
     \<lparr> mydimension = 2, coorddimension = 3,
       storage = \<lparr> s_userData = (), s_refElement = simplex2, s_origin = [0, 0, 0],
                   s_jacobianTransposed = [[1, 0, 0], [0, 1, 0]],
                   s_jacobianInverseTransposed = [[1, 0], [0, 1], [0, 0]],
                   s_integrationElement = 1 \<rparr> \<rparr>"
  by (simp add: embedded_triangle_def AffineGeometry_refElement_jt_def Storage_jt_def
        kernel_defs la_defs Let_def eval_nat_numeral)

lemma full_row_rank_embedded: "full_row_rank 2 3 [[1, 0, 0], [0, 1, 0]]"
proof -
  have "y = [0, 0]" if len: "length y = 2" and z: "mtv 2 3 [[1, 0, 0], [0, 1, 0]] y = replicate 3 0"
    for y :: "real list"
  proof -
    from len obtain a b where y: "y = [a, b]"
      by (cases y; cases "tl y") (auto simp: eval_nat_numeral)
    with z show ?thesis by (simp add: la_defs eval_nat_numeral)
  qed
  then show ?thesis by (simp add: full_row_rank_def eval_nat_numeral)
qed

lemma pseudo_inverse_embedded:
  "pseudo_inverse 2 3 [[1, 0, 0], [0, 1, 0]] [[1, 0], [0, 1], [0, 0]]"
  by (simp add: pseudo_inverse_def is_mat_def la_defs eval_nat_numeral)

lemma collinear_triangle_eq:
  "collinear_triangle =
     \<lparr> mydimension = 2, coorddimension = 2,
       storage = \<lparr> s_userData = (), s_refElement = simplex2, s_origin = [0, 0],
                   s_jacobianTransposed = [[1, 0], [2, 0]],
                   s_jacobianInverseTransposed = [[1 / 5, 2 / 5], [0, 0]],
                   s_integrationElement = 0 \<rparr> \<rparr>"
  by (simp add: collinear_triangle_def AffineGeometry_refElement_jt_def Storage_jt_def
        kernel_defs la_defs Let_def eval_nat_numeral)

lemma scaled_triangle_eq:
  "scaled_triangle =
     \<lparr> mydimension = 2, coorddimension = 2,
       storage = \<lparr> s_userData = (), s_refElement = simplex2, s_origin = [0, 0],
                   s_jacobianTransposed = [[2, 0], [0, 2]],
                   s_jacobianInverseTransposed = [[1 / 2, 0], [0, 1 / 2]],
                   s_integrationElement = 4 \<rparr> \<rparr>"
  by (simp add: scaled_triangle_def AffineGeometry_refElement_jt_def Storage_jt_def
        kernel_defs la_defs Let_def eval_nat_numeral)

text \<open>
  The collinear triangle maps the two local points \<open>(2,0)\<close> and \<open>(0,1)\<close> to the same
  global point, whatever matrix the kernel returned for its Jacobian.
\<close>

lemma collinear_any_kernel:
  "global (AffineGeometry_refElement_jt rightInvA 2 2 simplex2 [0, 0] [[1, 0], [2, 0]] ud) [2, 0]
   = global (AffineGeometry_refElement_jt rightInvA 2 2 simplex2 [0, 0] [[1, 0], [2, 0]] ud) [0, 1]"
  by (simp add: AffineGeometry_refElement_jt_def Storage_jt_def global_def la_defs
        eval_nat_numeral split: prod.split)

lemma pseudo_inverse_collinear:
  "pseudo_inverse 2 2 [[1, 0], [2, 0]] (snd (rightInvA_spec 2 2 [[1, 0], [2, 0]]))"
  by (simp add: pseudo_inverse_def is_mat_def kernel_defs la_defs Let_def eval_nat_numeral)

text \<open>
  So no kernel brings both points back to within \<open>sqrt (2\<^sup>-\<^sup>5\<^sup>2)\<close> of where they started:
  the two points are further apart than that.
\<close>

lemma collinear_roundtrip_any_kernel:
  fixes rightInvA :: MatrixHelper
  defines "g \<equiv> AffineGeometry_refElement_jt rightInvA 2 2 simplex2 [0, 0] [[1, 0], [2, 0]] ()"
  shows "\<not> (two_norm (vsub [2, 0] (local g (global g [2, 0]))) \<le> sqrt (1 / 2 ^ 52) \<and>
            two_norm (vsub [0, 1] (local g (global g [0, 1]))) \<le> sqrt (1 / 2 ^ 52))"
proof
  assume both: "two_norm (vsub [2, 0] (local g (global g [2, 0]))) \<le> sqrt (1 / 2 ^ 52) \<and>
            two_norm (vsub [0, 1] (local g (global g [0, 1]))) \<le> sqrt (1 / 2 ^ 52)"
  have same: "global g [2, 0] = global g [0, 1]"
    unfolding g_def by (rule collinear_any_kernel)
  have "length (local g (global g [0, 1])) = 2"
    by (simp add: g_def local_def AffineGeometry_refElement_jt_def mtv_def)
  then obtain a b where p: "local g (global g [0, 1]) = [a, b]"
    by (cases "local g (global g [0, 1])"; cases "tl (local g (global g [0, 1]))")
       (auto simp: eval_nat_numeral)
  from both have 1: "(2 - a) * (2 - a) + b * b \<le> 1 / 2 ^ 52"
    by (simp add: same p two_norm_def vsub_def)
  from both have 2: "a * a + (1 - b) * (1 - b) \<le> 1 / 2 ^ 52"
    by (simp add: p two_norm_def vsub_def)
  have "a * a \<le> 1"
  proof -
    have "0 \<le> (1 - b) * (1 - b)" by simp
    with 2 have "a * a \<le> 1 / 2 ^ 52" by linarith
    then show ?thesis by simp
  qed
  then have "a \<le> 1"
    using power2_le_imp_le [of a 1] by (simp add: power2_eq_square)
  then have "1 \<le> 2 - a" by simp
  then have "1 * 1 \<le> (2 - a) * (2 - a)"
    by (intro mult_mono) simp_all
  moreover have "0 \<le> b * b" by simp
  ultimately have "1 \<le> (2 - a) * (2 - a) + b * b" by linarith
  with 1 show False by simp
qed

section \<open>The corner-list constructor in closed form\<close>

lemma fill_rows_prefix:
  "k \<le> length jt \<Longrightarrow>
   fold (\<lambda>i jt. jt[i := f i]) [0..<k] (jt::FieldMatrix) = map f [0..<k] @ drop k jt"
proof (induction k)
  case 0
  then show ?case by simp
next
  case (Suc k)
  then have k: "k < length jt" by simp
  have "(map f [0..<k] @ drop k jt)[k := f k] = map f [0..<k] @ f k # drop (Suc k) jt"
    using k by (simp add: list_update_append Cons_nth_drop_Suc [symmetric])
  with Suc k show ?case by simp
qed

lemma fill_rows_eq:
  "length jt = mydim \<Longrightarrow>
   fill_rows mydim coordVector org jt = map (\<lambda>i. vsub (coordVector ! (i + 1)) org) [0..<mydim]"
  using fill_rows_prefix [of mydim jt "\<lambda>i. vsub (coordVector ! (i + 1)) org"]
  by (simp add: fill_rows_def)

lemma fill_rows_take:
  "fill_rows mydim (take (mydim + 1) coordVector) org jt = fill_rows mydim coordVector org jt"
  unfolding fill_rows_def by (rule fold_cong) simp_all

lemma Storage_coordVector_take:
  assumes "mydim + 1 \<le> length coordVector"
  shows "Storage_coordVector rightInvA mydim cdim refEl (take (mydim + 1) coordVector) ud
         = Storage_coordVector rightInvA mydim cdim refEl coordVector ud"
proof -
  have "take (mydim + 1) coordVector ! 0 = coordVector ! 0"
    by simp
  then show ?thesis
    using assms unfolding Storage_coordVector_def fill_rows_take by simp
qed

lemma Storage_coordVector_Some:
  assumes "mydim + 1 \<le> length coordVector"
  shows "\<exists>s. Storage_coordVector rightInvA mydim cdim refEl coordVector ud = Some s"
  using assms by (simp add: Storage_coordVector_def Let_def split: prod.split)

lemma Storage_coordVector_eq:
  assumes "mydim + 1 \<le> length coordVector"
  shows "Storage_coordVector rightInvA mydim cdim refEl coordVector ud =
           Some (Storage_jt rightInvA mydim cdim refEl (coordVector ! 0)
                   (map (\<lambda>i. vsub (coordVector ! (i + 1)) (coordVector ! 0)) [0..<mydim]) ud)"
  using assms
  by (simp add: Storage_coordVector_def Storage_jt_def fill_rows_eq Let_def split: prod.split)

lemma Storage_jt_fields:
  "s_userData (Storage_jt rightInvA mydim cdim refEl org jt ud) = ud"
  "s_refElement (Storage_jt rightInvA mydim cdim refEl org jt ud) = refEl"
  "s_origin (Storage_jt rightInvA mydim cdim refEl org jt ud) = org"
  "s_jacobianTransposed (Storage_jt rightInvA mydim cdim refEl org jt ud) = jt"
  "s_jacobianInverseTransposed (Storage_jt rightInvA mydim cdim refEl org jt ud)
     = snd (rightInvA mydim cdim jt)"
  "s_integrationElement (Storage_jt rightInvA mydim cdim refEl org jt ud)
     = fst (rightInvA mydim cdim jt)"
  by (simp_all add: Storage_jt_def split: prod.split)

section \<open>Properties of the affine geometry\<close>

text \<open>
  C1, as amended: for every geometry whose Jacobian has linearly independent rows and whose
  cached \<open>jacobianInverseTransposed\<close> is the Moore-Penrose pseudo-inverse of the cached
  \<open>jacobianTransposed\<close>, and for every local coordinate \<open>x\<close> in \<open>R^mydim\<close>,
  \<open>local(global(x))\<close> is \<open>x\<close> when the coordinates are computed without rounding.
\<close>

theorem local_global_roundtrip:
  assumes "is_vec (coorddimension g) (s_origin (storage g))"
    and "is_vec (mydimension g) x"
    and "pseudo_inverse (mydimension g) (coorddimension g)
           (jacobianTransposed g x) (jacobianInverseTransposed g x)"
    and "full_row_rank (mydimension g) (coorddimension g) (jacobianTransposed g x)"
  shows "local g (global g x) = x"
proof -
  have "multMatrix (mydimension g) (coorddimension g) (mydimension g)
          (s_jacobianTransposed (storage g)) (s_jacobianInverseTransposed (storage g))
        = identity (mydimension g)"
    using assms(3,4) right_inverse
    by (simp add: jacobianTransposed_def jacobianInverseTransposed_def)
  then show ?thesis
    using assms(1,2) roundtrip_of_right_inverse
    by (simp add: local_def global_def is_vec_def)
qed

theorem local_global_roundtrip_witness:
  "is_vec (coorddimension embedded_triangle) (s_origin (storage embedded_triangle)) \<and>
   is_vec (mydimension embedded_triangle) [1 / 3, 1 / 4] \<and>
   pseudo_inverse (mydimension embedded_triangle) (coorddimension embedded_triangle)
     (jacobianTransposed embedded_triangle [1 / 3, 1 / 4])
     (jacobianInverseTransposed embedded_triangle [1 / 3, 1 / 4]) \<and>
   full_row_rank (mydimension embedded_triangle) (coorddimension embedded_triangle)
     (jacobianTransposed embedded_triangle [1 / 3, 1 / 4]) \<and>
   local embedded_triangle (global embedded_triangle [1 / 3, 1 / 4]) = [1 / 3, 1 / 4]"
proof -
  have 1: "is_vec (coorddimension embedded_triangle) (s_origin (storage embedded_triangle))"
    by (simp add: embedded_triangle_eq is_vec_def)
  have 2: "is_vec (mydimension embedded_triangle) [1 / 3, 1 / 4]"
    by (simp add: embedded_triangle_eq is_vec_def)
  have 3: "pseudo_inverse (mydimension embedded_triangle) (coorddimension embedded_triangle)
     (jacobianTransposed embedded_triangle [1 / 3, 1 / 4])
     (jacobianInverseTransposed embedded_triangle [1 / 3, 1 / 4])"
    by (simp add: embedded_triangle_eq jacobianTransposed_def jacobianInverseTransposed_def
          pseudo_inverse_embedded)
  have 4: "full_row_rank (mydimension embedded_triangle) (coorddimension embedded_triangle)
     (jacobianTransposed embedded_triangle [1 / 3, 1 / 4])"
    by (simp add: embedded_triangle_eq jacobianTransposed_def full_row_rank_embedded)
  show ?thesis
    using local_global_roundtrip [OF 1 2 3 4] 1 2 3 4 by blast
qed

text \<open>
  C1 as stated fails on Scenario C of the spec, the triangle with collinear corners:
  \<open>global\<close> sends the two local points \<open>(2,0)\<close> and \<open>(0,1)\<close> to the same global point, so
  \<open>local\<close> answers both with one point, which is not within \<open>sqrt (2\<^sup>-\<^sup>5\<^sup>2)\<close> of both.
  Nothing here depends on what the kernel returned.
\<close>

theorem local_global_roundtrip_counterexample:
  "[2, 0] \<noteq> [0, 1::real] \<and>
   global collinear_triangle [2, 0] = global collinear_triangle [0, 1] \<and>
   \<not> (two_norm (vsub [2, 0] (local collinear_triangle (global collinear_triangle [2, 0])))
         \<le> sqrt (1 / 2 ^ 52) \<and>
      two_norm (vsub [0, 1] (local collinear_triangle (global collinear_triangle [0, 1])))
         \<le> sqrt (1 / 2 ^ 52))"
  unfolding collinear_triangle_def
  using collinear_any_kernel [of rightInvA_spec "()"] collinear_roundtrip_any_kernel [of rightInvA_spec]
  by simp

text \<open>
  C2, as amended: for every geometry whose Jacobian has linearly independent rows and whose
  cached \<open>jacobianInverseTransposed\<close> is the Moore-Penrose pseudo-inverse of the cached
  \<open>jacobianTransposed\<close>, and for every local coordinate \<open>x\<close>, the product
  \<open>jacobianTransposed(x) \<cdot> jacobianInverseTransposed(x)\<close>, in this order, is the
  \<open>mydim \<times> mydim\<close> identity matrix; both matrices are the same at every local coordinate.
\<close>

theorem jacobian_duality:
  assumes "pseudo_inverse (mydimension g) (coorddimension g)
           (jacobianTransposed g x) (jacobianInverseTransposed g x)"
    and "full_row_rank (mydimension g) (coorddimension g) (jacobianTransposed g x)"
  shows "multMatrix (mydimension g) (coorddimension g) (mydimension g)
           (jacobianTransposed g x) (jacobianInverseTransposed g x)
         = identity (mydimension g) \<and>
         jacobianTransposed g x' = jacobianTransposed g x \<and>
         jacobianInverseTransposed g x' = jacobianInverseTransposed g x"
proof -
  have "multMatrix (mydimension g) (coorddimension g) (mydimension g)
           (jacobianTransposed g x) (jacobianInverseTransposed g x)
         = identity (mydimension g)"
    using assms by (rule right_inverse)
  then show ?thesis
    by (simp add: jacobianTransposed_def jacobianInverseTransposed_def)
qed

theorem jacobian_duality_witness:
  "pseudo_inverse (mydimension embedded_triangle) (coorddimension embedded_triangle)
     (jacobianTransposed embedded_triangle [1 / 3, 1 / 3])
     (jacobianInverseTransposed embedded_triangle [1 / 3, 1 / 3]) \<and>
   full_row_rank (mydimension embedded_triangle) (coorddimension embedded_triangle)
     (jacobianTransposed embedded_triangle [1 / 3, 1 / 3]) \<and>
   multMatrix (mydimension embedded_triangle) (coorddimension embedded_triangle)
     (mydimension embedded_triangle)
     (jacobianTransposed embedded_triangle [1 / 3, 1 / 3])
     (jacobianInverseTransposed embedded_triangle [1 / 3, 1 / 3])
   = identity (mydimension embedded_triangle)"
proof -
  have 1: "pseudo_inverse (mydimension embedded_triangle) (coorddimension embedded_triangle)
     (jacobianTransposed embedded_triangle [1 / 3, 1 / 3])
     (jacobianInverseTransposed embedded_triangle [1 / 3, 1 / 3])"
    by (simp add: embedded_triangle_eq jacobianTransposed_def jacobianInverseTransposed_def
          pseudo_inverse_embedded)
  have 2: "full_row_rank (mydimension embedded_triangle) (coorddimension embedded_triangle)
     (jacobianTransposed embedded_triangle [1 / 3, 1 / 3])"
    by (simp add: embedded_triangle_eq jacobianTransposed_def full_row_rank_embedded)
  show ?thesis
    using jacobian_duality [OF 1 2, of "[0, 0]"] 1 2 by blast
qed

text \<open>
  C2 as stated fails on Scenario D of the spec, the triangle embedded in space: the
  product \<open>jacobianInverseTransposed(x) \<cdot> jacobianTransposed(x)\<close> is a \<open>3 \<times> 3\<close> matrix with a
  zero on its diagonal, an identity matrix of no size.
\<close>

theorem jacobian_duality_counterexample:
  "multMatrix (coorddimension embedded_triangle) (mydimension embedded_triangle)
     (coorddimension embedded_triangle)
     (jacobianInverseTransposed embedded_triangle [1 / 3, 1 / 3])
     (jacobianTransposed embedded_triangle [1 / 3, 1 / 3])
   = [[1, 0, 0], [0, 1, 0], [0, 0, 0]] \<and>
   multMatrix (coorddimension embedded_triangle) (mydimension embedded_triangle)
     (coorddimension embedded_triangle)
     (jacobianInverseTransposed embedded_triangle [1 / 3, 1 / 3])
     (jacobianTransposed embedded_triangle [1 / 3, 1 / 3])
   \<noteq> identity (mydimension embedded_triangle) \<and>
   multMatrix (coorddimension embedded_triangle) (mydimension embedded_triangle)
     (coorddimension embedded_triangle)
     (jacobianInverseTransposed embedded_triangle [1 / 3, 1 / 3])
     (jacobianTransposed embedded_triangle [1 / 3, 1 / 3])
   \<noteq> identity (coorddimension embedded_triangle)"
  by (simp add: embedded_triangle_eq jacobianTransposed_def jacobianInverseTransposed_def
        la_defs eval_nat_numeral)

text \<open>
  C5, as amended: the corner-list constructors do not look at the length of the sequence.
  Every sequence of at least \<open>mydim+1\<close> coordinates constructs a geometry, the same one as
  its first \<open>mydim+1\<close> entries do.
\<close>

theorem coordVector_length_unchecked:
  assumes "mydim + 1 \<le> length coordVector"
  shows "AffineGeometry_refElement_coordVector rightInvA mydim cdim refEl coordVector ud \<noteq> None \<and>
         AffineGeometry_refElement_coordVector rightInvA mydim cdim refEl coordVector ud
           = AffineGeometry_refElement_coordVector rightInvA mydim cdim refEl
               (take (mydim + 1) coordVector) ud \<and>
         AffineGeometry_gt_coordVector rightInvA general mydim cdim gt coordVector ud \<noteq> None \<and>
         AffineGeometry_gt_coordVector rightInvA general mydim cdim gt coordVector ud
           = AffineGeometry_gt_coordVector rightInvA general mydim cdim gt
               (take (mydim + 1) coordVector) ud"
  unfolding AffineGeometry_refElement_coordVector_def AffineGeometry_gt_coordVector_def
    Storage_coordVector_take [OF assms]
  using Storage_coordVector_Some [OF assms, of rightInvA cdim refEl ud]
    Storage_coordVector_Some [OF assms, of rightInvA cdim "general gt" ud]
  by auto

theorem coordVector_length_unchecked_witness:
  "2 + 1 \<le> length square_corners \<and>
   AffineGeometry_refElement_coordVector rightInvA_spec 2 2 simplex2 square_corners () \<noteq> None \<and>
   AffineGeometry_refElement_coordVector rightInvA_spec 2 2 simplex2 square_corners ()
     = AffineGeometry_refElement_coordVector rightInvA_spec 2 2 simplex2
         (take (2 + 1) square_corners) () \<and>
   AffineGeometry_gt_coordVector rightInvA_spec catalogue 2 2 (GeometryType 0 2) square_corners ()
     \<noteq> None \<and>
   AffineGeometry_gt_coordVector rightInvA_spec catalogue 2 2 (GeometryType 0 2) square_corners ()
     = AffineGeometry_gt_coordVector rightInvA_spec catalogue 2 2 (GeometryType 0 2)
         (take (2 + 1) square_corners) ()"
proof -
  have 1: "2 + 1 \<le> length square_corners"
    by (simp add: square_corners_def)
  show ?thesis
    using coordVector_length_unchecked [OF 1, of rightInvA_spec 2 simplex2 "()" catalogue
        "GeometryType 0 2"] 1
    by blast
qed

text \<open>
  C5 as stated fails on a triangle (\<open>mydim = 2\<close>) built from the four corners of the unit
  square: the length is not \<open>mydim+1\<close> and the construction returns a geometry.
\<close>

theorem coordVector_length_counterexample:
  "length square_corners \<noteq> 2 + 1 \<and>
   AffineGeometry_refElement_coordVector rightInvA_spec 2 2 simplex2 square_corners () =
     Some \<lparr> mydimension = 2, coorddimension = 2,
            storage = \<lparr> s_userData = (), s_refElement = simplex2, s_origin = [0, 0],
                        s_jacobianTransposed = [[1, 0], [0, 1]],
                        s_jacobianInverseTransposed = [[1, 0], [0, 1]],
                        s_integrationElement = 1 \<rparr> \<rparr>"
  by (simp add: square_corners_def AffineGeometry_refElement_coordVector_def
        Storage_coordVector_def fill_rows_def kernel_defs la_defs Let_def eval_nat_numeral)

text \<open>
  C6: for every geometry and every local coordinate \<open>x\<close>, \<open>global(x)\<close> is
  \<open>origin + J\<^sup>T x\<close> for the cached \<open>jacobianTransposed\<close> \<open>J\<close>: its \<open>j\<close>-th coordinate is
  \<open>origin[j] + \<Sum>i<mydim. J[i][j] * x[i]\<close>.  Nothing is asked of \<open>x\<close>.
\<close>

theorem global_affine:
  assumes "is_vec (coorddimension g) (s_origin (storage g))"
  shows "global g x =
         map (\<lambda>j. s_origin (storage g) ! j
                   + (\<Sum>i<mydimension g. s_jacobianTransposed (storage g) ! i ! j * x ! i))
           [0..<coorddimension g]"
  using assms by (simp add: global_def is_vec_def umtv_eq)

theorem global_affine_witness:
  "is_vec (coorddimension scaled_triangle) (s_origin (storage scaled_triangle)) \<and>
   global scaled_triangle [1 / 2, 1 / 4] =
     map (\<lambda>j. s_origin (storage scaled_triangle) ! j
               + (\<Sum>i<mydimension scaled_triangle.
                    s_jacobianTransposed (storage scaled_triangle) ! i ! j * [1 / 2, 1 / 4] ! i))
       [0..<coorddimension scaled_triangle] \<and>
   global scaled_triangle [1 / 2, 1 / 4] = [1, 1 / 2]"
proof -
  have 1: "is_vec (coorddimension scaled_triangle) (s_origin (storage scaled_triangle))"
    by (simp add: scaled_triangle_eq is_vec_def)
  have 2: "global scaled_triangle [1 / 2, 1 / 4] = [1, 1 / 2]"
    by (simp add: scaled_triangle_eq global_def la_defs eval_nat_numeral)
  show ?thesis
    using global_affine [OF 1, of "[1 / 2, 1 / 4]"] 1 2 by blast
qed

text \<open>
  C7: the corner-list constructor, given the coordinates \<open>c[0..mydim]\<close>, each of \<open>cdim\<close>
  entries, builds a mapping with the origin \<open>c[0]\<close> and a \<open>mydim \<times> cdim\<close> Jacobian whose
  entry \<open>(i, j)\<close> is \<open>c[i+1][j] - c[0][j]\<close>, row \<open>i\<close> being \<open>c[i+1] - c[0]\<close>, for every \<open>i\<close>
  in \<open>[0, mydim)\<close>; pseudo-inverse and integration element are what \<open>rightInvA\<close> returns
  for that Jacobian, and the whole is what the direct constructor builds from that origin
  and that Jacobian.
\<close>

theorem coordVector_construction:
  assumes "length coordVector = mydim + 1"
    and "list_all (is_vec cdim) coordVector"
  shows "\<exists>s. Storage_coordVector rightInvA mydim cdim refEl coordVector ud = Some s \<and>
             s_origin s = coordVector ! 0 \<and>
             is_mat mydim cdim (s_jacobianTransposed s) \<and>
             (\<forall>i<mydim. \<forall>j<cdim. s_jacobianTransposed s ! i ! j
                          = coordVector ! (i + 1) ! j - coordVector ! 0 ! j) \<and>
             s_jacobianInverseTransposed s = snd (rightInvA mydim cdim (s_jacobianTransposed s)) \<and>
             s_integrationElement s = fst (rightInvA mydim cdim (s_jacobianTransposed s)) \<and>
             s = Storage_jt rightInvA mydim cdim refEl (s_origin s) (s_jacobianTransposed s) ud \<and>
             AffineGeometry_refElement_coordVector rightInvA mydim cdim refEl coordVector ud
               = Some (AffineGeometry_refElement_jt rightInvA mydim cdim refEl
                         (s_origin s) (s_jacobianTransposed s) ud)"
proof -
  define s :: "'a Storage" where
    "s = Storage_jt rightInvA mydim cdim refEl (coordVector ! 0)
           (map (\<lambda>i. vsub (coordVector ! (i + 1)) (coordVector ! 0)) [0..<mydim]) ud"
  have len: "length (coordVector ! k) = cdim" if "k \<le> mydim" for k
    using assms that by (simp add: list_all_length is_vec_def)
  have built: "Storage_coordVector rightInvA mydim cdim refEl coordVector ud = Some s"
    using assms(1) by (simp add: s_def Storage_coordVector_eq)
  have org: "s_origin s = coordVector ! 0"
    by (simp add: s_def Storage_jt_fields)
  have jt: "s_jacobianTransposed s
              = map (\<lambda>i. vsub (coordVector ! (i + 1)) (coordVector ! 0)) [0..<mydim]"
    by (simp add: s_def Storage_jt_fields)
  have mat: "is_mat mydim cdim (s_jacobianTransposed s)"
    using len by (simp add: jt is_mat_def list_all_iff vsub_def)
  have entries: "\<forall>i<mydim. \<forall>j<cdim. s_jacobianTransposed s ! i ! j
                          = coordVector ! (i + 1) ! j - coordVector ! 0 ! j"
    using len by (simp add: jt vsub_def)
  have jit: "s_jacobianInverseTransposed s = snd (rightInvA mydim cdim (s_jacobianTransposed s))"
    unfolding jt by (simp add: s_def Storage_jt_fields)
  have ie: "s_integrationElement s = fst (rightInvA mydim cdim (s_jacobianTransposed s))"
    unfolding jt by (simp add: s_def Storage_jt_fields)
  have direct: "s = Storage_jt rightInvA mydim cdim refEl (s_origin s) (s_jacobianTransposed s) ud"
    unfolding org jt by (simp add: s_def)
  have geo: "AffineGeometry_refElement_coordVector rightInvA mydim cdim refEl coordVector ud
               = Some (AffineGeometry_refElement_jt rightInvA mydim cdim refEl
                         (s_origin s) (s_jacobianTransposed s) ud)"
    unfolding AffineGeometry_refElement_coordVector_def AffineGeometry_refElement_jt_def built
    using direct by simp
  from built org mat entries jit ie direct geo show ?thesis by blast
qed

theorem coordVector_construction_witness:
  "length [[1, 1], [3, 2], [0, 5::real]] = 2 + 1 \<and>
   list_all (is_vec 2) [[1, 1], [3, 2], [0, 5]] \<and>
   (\<exists>s. Storage_coordVector rightInvA_spec 2 2 simplex2 [[1, 1], [3, 2], [0, 5]] () = Some s \<and>
        s_origin s = [[1, 1], [3, 2], [0, 5]] ! 0 \<and>
        is_mat 2 2 (s_jacobianTransposed s) \<and>
        (\<forall>i<2. \<forall>j<2. s_jacobianTransposed s ! i ! j
                  = [[1, 1], [3, 2], [0, 5]] ! (i + 1) ! j - [[1, 1], [3, 2], [0, 5]] ! 0 ! j) \<and>
        s_jacobianInverseTransposed s = snd (rightInvA_spec 2 2 (s_jacobianTransposed s)) \<and>
        s_integrationElement s = fst (rightInvA_spec 2 2 (s_jacobianTransposed s)) \<and>
        s = Storage_jt rightInvA_spec 2 2 simplex2 (s_origin s) (s_jacobianTransposed s) () \<and>
        AffineGeometry_refElement_coordVector rightInvA_spec 2 2 simplex2
            [[1, 1], [3, 2], [0, 5]] ()
          = Some (AffineGeometry_refElement_jt rightInvA_spec 2 2 simplex2
                    (s_origin s) (s_jacobianTransposed s) ())) \<and>
   Storage_coordVector rightInvA_spec 2 2 simplex2 [[1, 1], [3, 2], [0, 5]] ()
     = Some \<lparr> s_userData = (), s_refElement = simplex2, s_origin = [1, 1],
              s_jacobianTransposed = [[2, 1], [- 1, 4]],
              s_jacobianInverseTransposed = [[4 / 9, - 1 / 9], [1 / 9, 2 / 9]],
              s_integrationElement = 9 \<rparr>"
proof -
  have 1: "length [[1, 1], [3, 2], [0, 5::real]] = 2 + 1" by simp
  have 2: "list_all (is_vec 2) [[1, 1], [3, 2], [0, 5]]" by (simp add: is_vec_def)
  have 3: "Storage_coordVector rightInvA_spec 2 2 simplex2 [[1, 1], [3, 2], [0, 5]] ()
     = Some \<lparr> s_userData = (), s_refElement = simplex2, s_origin = [1, 1],
              s_jacobianTransposed = [[2, 1], [- 1, 4]],
              s_jacobianInverseTransposed = [[4 / 9, - 1 / 9], [1 / 9, 2 / 9]],
              s_integrationElement = 9 \<rparr>"
    by (simp add: Storage_coordVector_def fill_rows_def kernel_defs la_defs Let_def
          eval_nat_numeral)
  show ?thesis
    using coordVector_construction [OF 1 2, of rightInvA_spec simplex2 "()"] 1 2 3 by blast
qed

text \<open>
  C8: \<open>volume()\<close> is the cached integration element times the volume of the reference
  element, so for every local point \<open>x\<close> it equals
  \<open>referenceElement.volume() * integrationElement(x)\<close>.
\<close>

theorem volume_law:
  "volume g = s_integrationElement (storage g) * re_volume (refElement g) \<and>
   volume g = re_volume (refElement g) * integrationElement g x"
  by (simp add: volume_def integrationElement_def)

text \<open>
  C9: assigning to the \<open>UserData\<close> obtained through \<open>userData()\<close> changes nothing else:
  origin, \<open>jacobianTransposed(x)\<close>, \<open>jacobianInverseTransposed(x)\<close>,
  \<open>integrationElement(x)\<close>, \<open>type()\<close>, \<open>corners()\<close>, \<open>corner(i)\<close>, \<open>center()\<close>, \<open>global(x)\<close>,
  \<open>local(y)\<close> and \<open>volume()\<close> return what they returned before.
\<close>

theorem userData_frame:
  "s_origin (storage (userData_assign ud g)) = s_origin (storage g) \<and>
   jacobianTransposed (userData_assign ud g) x = jacobianTransposed g x \<and>
   jacobianInverseTransposed (userData_assign ud g) x = jacobianInverseTransposed g x \<and>
   integrationElement (userData_assign ud g) x = integrationElement g x \<and>
   type (userData_assign ud g) = type g \<and>
   corners (userData_assign ud g) = corners g \<and>
   corner (userData_assign ud g) i = corner g i \<and>
   center (userData_assign ud g) = center g \<and>
   global (userData_assign ud g) x = global g x \<and>
   local (userData_assign ud g) y = local g y \<and>
   volume (userData_assign ud g) = volume g \<and>
   affine (userData_assign ud g) = affine g \<and>
   userData (userData_assign ud g) = ud"
  by (simp add: userData_assign_def jacobianTransposed_def jacobianInverseTransposed_def
        integrationElement_def type_def corners_def corner_def center_def global_def local_def
        volume_def affine_def userData_def refElement_def)

section \<open>Properties of checkGeometry\<close>

text \<open>
  Each comparison appends its own lines to the report and clears \<open>pass\<close> when it has any,
  whatever the report held before.
\<close>

lemma check_point_report:
  "check_point env geometry refElem x r =
     (fst r \<and> snd (check_point env geometry refElem x (True, [])) = [],
      snd r @ snd (check_point env geometry refElem x (True, [])))"
  by (cases r) (simp add: check_point_def Let_def violation_def)

lemma fold_check_point_report:
  "fold (check_point env geometry refElem) pts r =
     (fst r \<and> concat (map (\<lambda>x. snd (check_point env geometry refElem x (True, []))) pts) = [],
      snd r @ concat (map (\<lambda>x. snd (check_point env geometry refElem x (True, []))) pts))"
proof (induction pts arbitrary: r)
  case Nil
  then show ?case by simp
next
  case (Cons x pts)
  show ?case
    by (subst fold_simps, subst check_point_report, subst Cons.IH) auto
qed

lemma fold_violation_report:
  "fold (\<lambda>i r. if c i then violation d r else r) is r =
     (fst r \<and> concat (map (\<lambda>i. if c i then [d] else []) is) = [],
      snd r @ concat (map (\<lambda>i. if c i then [d] else []) is))"
  by (induction "is" arbitrary: r) (auto simp: violation_def)

lemma check_corners_report:
  "check_corners geometry refElem r =
     (fst r \<and> snd (check_corners geometry refElem (True, [])) = [],
      snd r @ snd (check_corners geometry refElem (True, [])))"
  by (simp add: check_corners_def Let_def fold_violation_report violation_def)

lemma check_point_no_CornerGlobal:
  "CornerGlobal \<notin> set (snd (check_point env geometry refElem x (True, [])))"
  by (simp add: check_point_def Let_def violation_def)

lemma check_point_tg_corner:
  "check_point env (geometry\<lparr> tg_corner := f \<rparr>) = check_point env geometry"
  by (intro ext) (simp add: check_point_def Let_def)

lemma check_corners_mismatch:
  "re_size refElem (int (tg_mydimension geometry)) \<noteq> tg_corners geometry \<Longrightarrow>
   check_corners geometry refElem r =
     violation (NumberOfCorners (tg_corners geometry)
                  (re_size refElem (int (tg_mydimension geometry)))) r"
  by (simp add: check_corners_def Let_def)

text \<open>
  An \<open>AffineGeometry\<close> over the reference element of the catalogue passes the comparison
  of \<open>center()\<close>, which is computed the way the checker computes it.
\<close>

lemma AffineGeometry_checked_returns:
  assumes "ce_general env (type g) = refElement g"
  shows "\<exists>r. checkGeometry env (as_TestGeometry g) = Inr r"
proof -
  have "two_norm (vsub (center g) (global g (re_position (refElement g) 0 0))) = 0"
    by (simp add: center_def vsub_self two_norm_zero)
  then show ?thesis
    using assms by (simp add: checkGeometry_def as_TestGeometry_def Let_def)
qed

text \<open>
  C3, as amended: \<open>checkGeometry\<close> throws an exception, before any other comparison, when
  \<open>center()\<close> is further than \<open>1e-8\<close> from \<open>global(refElement.position(0,0))\<close>.  In every
  other case it returns: each other comparison that fails writes its line and clears
  \<open>pass\<close>, all comparisons are made, and the result is \<open>true\<close> exactly when no line was
  written.
\<close>

theorem checkGeometry_outcome:
  "checkGeometry env geometry =
     (if \<bar>two_norm (vsub (tg_center geometry)
            (tg_global geometry (re_position (ce_general env (tg_type geometry)) 0 0)))\<bar>
         > 1 / 10 ^ 8
      then Inl (Exception ''center() is not consistent with global(refElem.position(0,0)).'')
      else
        let refElem = ce_general env (tg_type geometry);
            ds = snd (check_corners geometry refElem (True, []))
                 @ concat (map (\<lambda>x. snd (check_point env geometry refElem x (True, [])))
                             (ce_create env (tg_type geometry) 2))
        in Inr (ds = [], ds))"
  unfolding checkGeometry_def Let_def
  by (subst fold_check_point_report, subst check_corners_report) auto

text \<open>
  C3 as stated fails on the unit interval with a \<open>center()\<close> of \<open>3/2\<close>: the checker
  throws.
\<close>

theorem checkGeometry_throws_counterexample:
  "checkGeometry interval_env (unit_interval\<lparr> tg_center := [3 / 2] \<rparr>) =
     Inl (Exception ''center() is not consistent with global(refElem.position(0,0)).'')"
  by (simp add: checkGeometry_def interval_env_def unit_interval_def catalogue_def simplex1_def
        la_defs Let_def)

text \<open>
  C10, as amended: for every geometry that passes the comparison of \<open>center()\<close> and whose
  \<open>corners()\<close> differs from the corner count of the reference element, \<open>checkGeometry\<close>
  writes the line about the number of corners and returns \<open>false\<close>; it writes no line
  about the placement of a corner, and its result does not depend on what \<open>corner(i)\<close>
  returns.
\<close>

theorem corner_count_mismatch:
  assumes "\<not> \<bar>two_norm (vsub (tg_center geometry)
            (tg_global geometry (re_position (ce_general env (tg_type geometry)) 0 0)))\<bar>
         > 1 / 10 ^ 8"
    and "re_size (ce_general env (tg_type geometry)) (int (tg_mydimension geometry))
          \<noteq> tg_corners geometry"
  shows "checkGeometry env geometry =
           Inr (False,
                NumberOfCorners (tg_corners geometry)
                  (re_size (ce_general env (tg_type geometry)) (int (tg_mydimension geometry)))
                # concat (map (\<lambda>x. snd (check_point env geometry
                                           (ce_general env (tg_type geometry)) x (True, [])))
                            (ce_create env (tg_type geometry) 2))) \<and>
         CornerGlobal \<notin> set (concat (map (\<lambda>x. snd (check_point env geometry
                                           (ce_general env (tg_type geometry)) x (True, [])))
                            (ce_create env (tg_type geometry) 2))) \<and>
         checkGeometry env (geometry\<lparr> tg_corner := f \<rparr>) = checkGeometry env geometry"
proof -
  have 1: "checkGeometry env geometry =
           Inr (False,
                NumberOfCorners (tg_corners geometry)
                  (re_size (ce_general env (tg_type geometry)) (int (tg_mydimension geometry)))
                # concat (map (\<lambda>x. snd (check_point env geometry
                                           (ce_general env (tg_type geometry)) x (True, [])))
                            (ce_create env (tg_type geometry) 2)))"
    using assms unfolding checkGeometry_def Let_def
    by (subst fold_check_point_report) (simp add: check_corners_mismatch violation_def)
  have 2: "CornerGlobal \<notin> set (concat (map (\<lambda>x. snd (check_point env geometry
                                           (ce_general env (tg_type geometry)) x (True, [])))
                            (ce_create env (tg_type geometry) 2)))"
    by (simp add: check_point_no_CornerGlobal)
  have 3: "checkGeometry env (geometry\<lparr> tg_corner := f \<rparr>) = checkGeometry env geometry"
    using assms(2)
    by (simp add: checkGeometry_def Let_def check_point_tg_corner check_corners_mismatch)
  from 1 2 3 show ?thesis by blast
qed

theorem corner_count_mismatch_witness:
  "\<not> \<bar>two_norm (vsub (tg_center (unit_interval\<lparr> tg_corners := 3 \<rparr>))
            (tg_global (unit_interval\<lparr> tg_corners := 3 \<rparr>)
               (re_position (ce_general interval_env (tg_type (unit_interval\<lparr> tg_corners := 3 \<rparr>)))
                  0 0)))\<bar>
         > 1 / 10 ^ 8 \<and>
   re_size (ce_general interval_env (tg_type (unit_interval\<lparr> tg_corners := 3 \<rparr>)))
       (int (tg_mydimension (unit_interval\<lparr> tg_corners := 3 \<rparr>)))
     \<noteq> tg_corners (unit_interval\<lparr> tg_corners := 3 \<rparr>) \<and>
   checkGeometry interval_env (unit_interval\<lparr> tg_corners := 3 \<rparr>) =
     Inr (False, [NumberOfCorners 3 2]) \<and>
   checkGeometry interval_env (unit_interval\<lparr> tg_corners := 3, tg_corner := (\<lambda>i. [5]) \<rparr>) =
     checkGeometry interval_env (unit_interval\<lparr> tg_corners := 3 \<rparr>)"
proof -
  have 1: "\<not> \<bar>two_norm (vsub (tg_center (unit_interval\<lparr> tg_corners := 3 \<rparr>))
            (tg_global (unit_interval\<lparr> tg_corners := 3 \<rparr>)
               (re_position (ce_general interval_env (tg_type (unit_interval\<lparr> tg_corners := 3 \<rparr>)))
                  0 0)))\<bar>
         > 1 / 10 ^ 8"
    by (simp add: interval_env_def unit_interval_def catalogue_def simplex1_def la_defs)
  have 2: "re_size (ce_general interval_env (tg_type (unit_interval\<lparr> tg_corners := 3 \<rparr>)))
       (int (tg_mydimension (unit_interval\<lparr> tg_corners := 3 \<rparr>)))
     \<noteq> tg_corners (unit_interval\<lparr> tg_corners := 3 \<rparr>)"
    by (simp add: interval_env_def unit_interval_def catalogue_def simplex1_def)
  have 3: "concat (map (\<lambda>x. snd (check_point interval_env (unit_interval\<lparr> tg_corners := 3 \<rparr>)
              (ce_general interval_env (tg_type (unit_interval\<lparr> tg_corners := 3 \<rparr>))) x (True, [])))
              (ce_create interval_env (tg_type (unit_interval\<lparr> tg_corners := 3 \<rparr>)) 2)) = []"
    by (simp add: interval_env_def unit_interval_def catalogue_def simplex1_def check_point_def
          la_defs Let_def violation_def)
  have 4: "re_size (ce_general interval_env (tg_type (unit_interval\<lparr> tg_corners := 3 \<rparr>)))
       (int (tg_mydimension (unit_interval\<lparr> tg_corners := 3 \<rparr>))) = 2"
    by (simp add: interval_env_def unit_interval_def catalogue_def simplex1_def)
  show ?thesis
    using corner_count_mismatch [OF 1 2, of "\<lambda>i. [5]"] 1 2 3 4 by simp
qed

text \<open>
  C10 as stated fails on the unit interval with three corners and a \<open>center()\<close> of \<open>3/2\<close>:
  the counts differ and the checker throws instead of returning \<open>false\<close>.
\<close>

theorem corner_count_mismatch_counterexample:
  "re_size (ce_general interval_env (tg_type (unit_interval\<lparr> tg_center := [3 / 2], tg_corners := 3 \<rparr>)))
       (int (tg_mydimension (unit_interval\<lparr> tg_center := [3 / 2], tg_corners := 3 \<rparr>)))
     \<noteq> tg_corners (unit_interval\<lparr> tg_center := [3 / 2], tg_corners := 3 \<rparr>) \<and>
   checkGeometry interval_env (unit_interval\<lparr> tg_center := [3 / 2], tg_corners := 3 \<rparr>) =
     Inl (Exception ''center() is not consistent with global(refElem.position(0,0)).'')"
  by (simp add: checkGeometry_def interval_env_def unit_interval_def catalogue_def simplex1_def
        la_defs Let_def)

end
